theory Spec2Isabelle
  imports Main "HOL-Library.Word"
begin

section \<open>Strings, values and exceptions\<close>

text \<open>
  A Python \<open>str\<close> is modelled as a \<open>string\<close>, one \<open>char\<close> per code point, so the
  model covers the code points below 256. An exception is its class name and message;
  every exception raised by the libraries the program calls derives from \<open>Exception\<close>.
\<close>

datatype exn = Exn (exn_class: string) (exn_msg: string)

text \<open>
  The white space of \<open>str.isspace\<close> among the code points below 256: tab, line feed,
  vertical tab, form feed, carriage return, the four separators 28 to 31, space,
  next line (133) and no-break space (160).
\<close>

definition isspace :: "char \<Rightarrow> bool" where
  "isspace c \<longleftrightarrow> of_char c \<in> {9, 10, 11, 12, 13, 28, 29, 30, 31, 32, 133, 160 :: nat}"

definition strip :: "string \<Rightarrow> string" where
  "strip s = rev (dropWhile isspace (rev (dropWhile isspace s)))"

text \<open>\<open>sep.join(xs)\<close>, and \<open>text.split(sep)\<close> for a separator of one character.\<close>

fun str_join :: "'a list \<Rightarrow> 'a list list \<Rightarrow> 'a list" where
  "str_join sep [] = []"
| "str_join sep [x] = x"
| "str_join sep (x # y # ys) = x @ sep @ str_join sep (y # ys)"

fun split_on :: "'a \<Rightarrow> 'a list \<Rightarrow> 'a list list" where
  "split_on sep [] = [[]]"
| "split_on sep (x # xs) =
     (if x = sep then [] # split_on sep xs
      else case split_on sep xs of
             [] \<Rightarrow> [[x]]
           | piece # pieces \<Rightarrow> (x # piece) # pieces)"

text \<open>
  The values SQLite hands to Python: \<open>None\<close>, \<open>int\<close>, \<open>float\<close>, \<open>str\<close> and \<open>bytes\<close>.
  The program carries floats around without computing on them, so a float is kept as
  the 64 bits of its IEEE double.
\<close>

type_synonym float64 = "64 word"

datatype sqlval = VNull | VInt int | VReal float64 | VText string | VBlob string

type_synonym row = "sqlval list"

text \<open>
  What \<open>fetch_data\<close> returns: a list whose first element is the list of column names
  and whose other elements are the fetched tuples.
\<close>

type_synonym tabular = "row list"

section \<open>The store\<close>

text \<open>
  A database is the list of its \<open>sqlite_master\<close> entries, in rowid order: tables,
  views, indexes and triggers. An entry has its type, its name, its columns in declared
  order (each with its name, its declared type, empty when none is declared, and whether
  it is a generated or hidden column, which \<open>table_info\<close> leaves out) and its rows. A virtual table is an entry of type \<open>table\<close>
  whose columns are known to its module only. Tables, views and indexes share one name
  space, in which SQLite keeps names distinct up to the case of letters; a trigger may
  bear the name of a table. SQLite reserves the names starting with \<open>sqlite_\<close> for its
  internal tables.
\<close>

record column =
  col_name :: string
  col_type :: string
  col_hidden :: bool

record schema_object =
  obj_type :: string
  obj_name :: string
  obj_virtual :: bool
  obj_columns :: "column list"
  obj_rows :: "row list"

type_synonym database = "schema_object list"

datatype fnode = Db database | Not_db

text \<open>
  The events a run leaves behind, in order: what it prints, the prompt of \<open>input\<close>,
  the prompts sent to the completion service and the statements handed to SQLite.
\<close>

datatype printed = Text string | Repr tabular

datatype event =
    Print printed
  | Input_prompt string
  | Completion_call string
  | Sql_execute string string
  | Sql_executemany string string "row list"

record world =
  files :: "string \<Rightarrow> fnode option"
  unreachable :: "string \<Rightarrow> bool"
  trace :: "event list"

definition log :: "event \<Rightarrow> world \<Rightarrow> world" where
  "log e w = w\<lparr>trace := trace w @ [e]\<rparr>"

definition print :: "string \<Rightarrow> world \<Rightarrow> world" where
  "print s w = log (Print (Text s)) w"

text \<open>
  The names \<open>:memory:\<close> and the empty name denote no file: SQLite opens a new,
  empty database in memory or in a temporary file, and nothing of it outlives the
  connection.
\<close>

definition in_memory :: "string \<Rightarrow> bool" where
  "in_memory db_file \<longleftrightarrow> db_file = '':memory:'' \<or> db_file = []"

definition store :: "string \<Rightarrow> fnode \<Rightarrow> world \<Rightarrow> world" where
  "store db_file node w =
     (if in_memory db_file then w else w\<lparr>files := (files w)(db_file \<mapsto> node)\<rparr>)"

text \<open>
  \<open>sqlite3.connect\<close>: fails on a path that cannot be opened (a directory, a missing
  directory), creates an empty database where no file exists, and otherwise gives access
  to the file as it is. SQLite reads the file lazily: the connection to a file that is no
  database succeeds, and only a statement that reads the file fails.
\<close>

definition connect :: "string \<Rightarrow> world \<Rightarrow> (exn + fnode) \<times> world" where
  "connect db_file w =
     (if in_memory db_file then (Inr (Db []), w)
      else if unreachable w db_file
      then (Inl (Exn ''OperationalError'' ''unable to open database file''), w)
      else case files w db_file of
             None \<Rightarrow> (Inr (Db []), store db_file (Db []) w)
           | Some node \<Rightarrow> (Inr node, w))"

text \<open>
  SQLite itself is outside the repository. For a statement whose text the program does
  not fix, it is a parameter: \<open>exec node sql\<close> is the outcome of \<open>cursor.execute(sql)\<close>
  followed by \<open>cursor.fetchall()\<close> on the file \<open>node\<close>. Either one of the two raises,
  or they give \<open>cursor.description\<close> (\<open>None\<close> for a statement without result columns,
  else the column names), the fetched rows, and the file as it is on disk once the
  connection is gone.
\<close>

datatype exec_result =
    Raises exn
  | Executed "string list option" "row list" fnode

type_synonym engine = "fnode \<Rightarrow> string \<Rightarrow> exec_result"

section \<open>\<open>fetch_data\<close>\<close>

definition DB_FILE :: string where
  "DB_FILE = ''database.sqlite''"

definition none_not_iterable :: exn where
  "none_not_iterable = Exn ''TypeError'' (CHR 0x27 # ''NoneType'' @ CHR 0x27 # '' object is not iterable'')"

text \<open>The \<open>except Exception\<close> branch of \<open>fetch_data\<close>.\<close>

definition fetch_failed :: "exn \<Rightarrow> world \<Rightarrow> tabular \<times> world" where
  "fetch_failed e w = ([], print (''Error executing SQL: '' @ exn_msg e) w)"

definition fetch_data :: "engine \<Rightarrow> string \<Rightarrow> string \<Rightarrow> world \<Rightarrow> tabular \<times> world" where
  "fetch_data exec sql db_file w =
     (case connect db_file w of
        (Inl e, w1) \<Rightarrow> fetch_failed e w1
      | (Inr node, w1) \<Rightarrow>
          (case exec node sql of
             Raises e \<Rightarrow> fetch_failed e (log (Sql_execute db_file sql) w1)
           | Executed description data node' \<Rightarrow>
               (let w2 = store db_file node' (log (Sql_execute db_file sql) w1) in
                case description of
                  None \<Rightarrow> fetch_failed none_not_iterable w2
                | Some columns \<Rightarrow> (map VText columns # data, w2))))"

section \<open>The schema introspector\<close>

text \<open>
  \<open>get_database_schema\<close> sends SQLite two kinds of statement.
  \<open>SELECT name FROM sqlite_master WHERE type='table';\<close> gives the names of the entries
  of type \<open>table\<close>, internal and virtual tables included; on a file that is no
  database it fails. \<open>PRAGMA table_info('t');\<close> gives one row per column of the table
  or view \<open>t\<close>, in declared order, generated and hidden columns left out, and no row when there
  is no such table or view; as SQLite keeps the names of tables and views distinct up to
  the case of letters, a listed name denotes one of them.

  In two cases the answer is not determined by the database as modelled here, and is a
  parameter: \<open>pragma db stmt\<close> is the outcome of the statement \<open>stmt\<close>, an exception or
  rows of the shape \<open>table_info\<close> gives. The program pastes the name between the quotes
  as it is, so a name holding a single quote ends the literal early, and the parser of
  SQLite decides: a syntax error for most names, the columns of another table for a
  crafted one. And the columns of a virtual table are those its module reports, when the
  module is loaded.
\<close>

type_synonym pragma_answer = "database \<Rightarrow> string \<Rightarrow> exn + column list"

definition SELECT_TABLES :: string where
  "SELECT_TABLES = ''SELECT name FROM sqlite_master WHERE type='' @ CHR 0x27 # ''table'' @ CHR 0x27 # '';''"

definition sqlite_master_tables :: "database \<Rightarrow> string list" where
  "sqlite_master_tables db = map obj_name (filter (\<lambda>obj. obj_type obj = ''table'') db)"

definition table_info_stmt :: "string \<Rightarrow> string" where
  "table_info_stmt table_name = ''PRAGMA table_info('' @ CHR 0x27 # table_name @ CHR 0x27 # '');''"

definition pragma_table_info :: "pragma_answer \<Rightarrow> database \<Rightarrow> string \<Rightarrow> exn + column list" where
  "pragma_table_info pragma db table_name =
     (if CHR 0x27 \<in> set table_name then pragma db (table_info_stmt table_name)
      else case find (\<lambda>obj. obj_name obj = table_name \<and> obj_type obj \<in> {''table'', ''view''}) db of
             None \<Rightarrow> Inr []
           | Some obj \<Rightarrow>
               if obj_virtual obj then pragma db (table_info_stmt table_name)
               else Inr (filter (\<lambda>col. \<not> col_hidden col) (obj_columns obj)))"

text \<open>The text of one column, and of one table: \<open>f"table: {table_name}\ncolumns:\n{col_info}"\<close>.\<close>

definition col_line :: "column \<Rightarrow> string" where
  "col_line col = ''col:'' @ col_name col @ '', type:'' @ col_type col"

definition table_block :: "string \<Rightarrow> column list \<Rightarrow> string" where
  "table_block table_name columns =
     (let col_info = str_join ''\<newline>'' (map col_line columns)
      in ''table: '' @ table_name @ ''\<newline>columns:\<newline>'' @ col_info)"

text \<open>The loop over \<open>tables\<close>, with \<open>schema_info\<close> as its accumulator.\<close>

fun schema_loop ::
  "pragma_answer \<Rightarrow> database \<Rightarrow> string \<Rightarrow> string list \<Rightarrow> string list \<Rightarrow> world \<Rightarrow>
     (exn + string list) \<times> world" where
  "schema_loop pragma db db_file [] schema_info w = (Inr schema_info, w)"
| "schema_loop pragma db db_file (table_name # tables) schema_info w =
     (let w1 = log (Sql_execute db_file (table_info_stmt table_name)) w in
      case pragma_table_info pragma db table_name of
        Inl e \<Rightarrow> (Inl e, w1)
      | Inr columns \<Rightarrow>
          schema_loop pragma db db_file tables (schema_info @ [table_block table_name columns]) w1)"

definition get_database_schema :: "pragma_answer \<Rightarrow> string \<Rightarrow> world \<Rightarrow> (exn + string) \<times> world" where
  "get_database_schema pragma db_file w =
     (case connect db_file w of
        (Inl e, w1) \<Rightarrow> (Inl e, w1)
      | (Inr node, w1) \<Rightarrow>
          (let w2 = log (Sql_execute db_file SELECT_TABLES) w1
           in case node of
                Not_db \<Rightarrow> (Inl (Exn ''DatabaseError'' ''file is not a database''), w2)
              | Db db \<Rightarrow>
                  (let tables = sqlite_master_tables db
                   in case schema_loop pragma db db_file tables [] w2 of
                        (Inl e, w3) \<Rightarrow> (Inl e, w3)
                      | (Inr schema_info, w3) \<Rightarrow>
                          (Inr (str_join ''\<newline>\<newline>'' schema_info), w3))))"

section \<open>\<open>create_database\<close>\<close>

text \<open>
  The statements of \<open>create_database\<close>, as SQLite carries them out. Creating a table
  with an \<open>AUTOINCREMENT\<close> key adds the table and, where it is not there yet, the internal
  table \<open>sqlite_sequence(name, seq)\<close>. Inserting a row without its key gives it the
  key after the largest one the table has had, which \<open>sqlite_sequence\<close> records. The
  model of \<open>INSERT\<close> covers rows that meet the constraints of the table, as the rows of
  the program do.
\<close>

definition CREATE_EMPLOYEES :: string where
  "CREATE_EMPLOYEES =
     ''\<newline>    CREATE TABLE employees (\<newline>'' @
     ''        id INTEGER PRIMARY KEY AUTOINCREMENT,\<newline>'' @
     ''        name TEXT NOT NULL,\<newline>'' @
     ''        age INTEGER,\<newline>'' @
     ''        department_id INTEGER\<newline>'' @
     ''    );\<newline>    ''"

definition CREATE_DEPARTMENTS :: string where
  "CREATE_DEPARTMENTS =
     ''\<newline>    CREATE TABLE departments (\<newline>'' @
     ''        id INTEGER PRIMARY KEY AUTOINCREMENT,\<newline>'' @
     ''        name TEXT NOT NULL\<newline>'' @
     ''    );\<newline>    ''"

definition INSERT_DEPARTMENTS :: string where
  "INSERT_DEPARTMENTS = ''INSERT INTO departments (name) VALUES (?);''"

definition INSERT_EMPLOYEES :: string where
  "INSERT_EMPLOYEES = ''INSERT INTO employees (name, age, department_id) VALUES (?, ?, ?);''"

definition departments :: "row list" where
  "departments =
     [[VText ''Human Resources''],
      [VText ''Engineering''],
      [VText ''Sales''],
      [VText ''Marketing'']]"

definition employees :: "row list" where
  "employees =
     [[VText ''Alice'', VInt 30, VInt 2],
      [VText ''Bob'', VInt 45, VInt 3],
      [VText ''Charlie'', VInt 25, VInt 2],
      [VText ''Diana'', VInt 35, VInt 1],
      [VText ''Eve'', VInt 40, VInt 4],
      [VText ''Frank'', VInt 50, VInt 3]]"

definition employees_columns :: "column list" where
  "employees_columns =
     [\<lparr>col_name = ''id'', col_type = ''INTEGER'', col_hidden = False\<rparr>,
      \<lparr>col_name = ''name'', col_type = ''TEXT'', col_hidden = False\<rparr>,
      \<lparr>col_name = ''age'', col_type = ''INTEGER'', col_hidden = False\<rparr>,
      \<lparr>col_name = ''department_id'', col_type = ''INTEGER'', col_hidden = False\<rparr>]"

definition departments_columns :: "column list" where
  "departments_columns =
     [\<lparr>col_name = ''id'', col_type = ''INTEGER'', col_hidden = False\<rparr>,
      \<lparr>col_name = ''name'', col_type = ''TEXT'', col_hidden = False\<rparr>]"

definition sqlite_sequence :: schema_object where
  "sqlite_sequence =
     \<lparr>obj_type = ''table'', obj_name = ''sqlite_sequence'', obj_virtual = False,
      obj_columns = [\<lparr>col_name = ''name'', col_type = [], col_hidden = False\<rparr>,
                     \<lparr>col_name = ''seq'', col_type = [], col_hidden = False\<rparr>],
      obj_rows = []\<rparr>"

definition create_table_autoincrement :: "string \<Rightarrow> column list \<Rightarrow> database \<Rightarrow> exn + database" where
  "create_table_autoincrement table_name columns db =
     (if table_name \<in> set (map obj_name db)
      then Inl (Exn ''OperationalError'' (''table '' @ table_name @ '' already exists''))
      else Inr (db @
                [\<lparr>obj_type = ''table'', obj_name = table_name, obj_virtual = False,
                  obj_columns = columns, obj_rows = []\<rparr>] @
                (if ''sqlite_sequence'' \<in> set (map obj_name db) then [] else [sqlite_sequence])))"

definition last_rowid :: "database \<Rightarrow> string \<Rightarrow> int" where
  "last_rowid db table_name =
     fold max
       ([seq. obj \<leftarrow> db, obj_name obj = ''sqlite_sequence'',
              [VText n, VInt seq] \<leftarrow> obj_rows obj, n = table_name] @
        [rowid. obj \<leftarrow> db, obj_name obj = table_name, VInt rowid # _ \<leftarrow> obj_rows obj])
       0"

definition record_rowid :: "string \<Rightarrow> int \<Rightarrow> row list \<Rightarrow> row list" where
  "record_rowid table_name rowid seqs =
     (if [VText table_name] \<in> set (map (take 1) seqs)
      then map (\<lambda>r. if take 1 r = [VText table_name] then [VText table_name, VInt rowid] else r) seqs
      else seqs @ [[VText table_name, VInt rowid]])"

definition insert_autoincrement :: "string \<Rightarrow> row \<Rightarrow> database \<Rightarrow> exn + database" where
  "insert_autoincrement table_name vals db =
     (if table_name \<notin> set (map obj_name db)
      then Inl (Exn ''OperationalError'' (''no such table: '' @ table_name))
      else let rowid = last_rowid db table_name + 1
           in Inr (map (\<lambda>obj.
                     if obj_name obj = table_name
                     then obj\<lparr>obj_rows := obj_rows obj @ [VInt rowid # vals]\<rparr>
                     else if obj_name obj = ''sqlite_sequence''
                     then obj\<lparr>obj_rows := record_rowid table_name rowid (obj_rows obj)\<rparr>
                     else obj) db))"

text \<open>\<open>cursor.executemany\<close>: the statement once per parameter row, up to the first failure.\<close>

fun executemany :: "(row \<Rightarrow> database \<Rightarrow> exn + database) \<Rightarrow> row list \<Rightarrow> database \<Rightarrow> exn + database" where
  "executemany stmt [] db = Inr db"
| "executemany stmt (params # rest) db =
     (case stmt params db of
        Inl e \<Rightarrow> Inl e
      | Inr db' \<Rightarrow> executemany stmt rest db')"

text \<open>
  The four statements in the order of the source; the first failure ends them. They
  run on the empty database that \<open>connect\<close> has just created, where none of them
  fails. A file that is no database cannot be met here, as the file did not exist.
\<close>

definition populate :: "database \<Rightarrow> exn + database" where
  "populate db =
     (case create_table_autoincrement ''employees'' employees_columns db of
        Inl e \<Rightarrow> Inl e
      | Inr db1 \<Rightarrow>
     (case create_table_autoincrement ''departments'' departments_columns db1 of
        Inl e \<Rightarrow> Inl e
      | Inr db2 \<Rightarrow>
     (case executemany (insert_autoincrement ''departments'') departments db2 of
        Inl e \<Rightarrow> Inl e
      | Inr db3 \<Rightarrow> executemany (insert_autoincrement ''employees'') employees db3)))"

definition quoted :: "string \<Rightarrow> string" where
  "quoted s = CHR 0x27 # s @ [CHR 0x27]"

definition create_database :: "string \<Rightarrow> world \<Rightarrow> (exn + unit) \<times> world" where
  "create_database db_file w =
     (if files w db_file \<noteq> None
      then (Inr (), print (''Database '' @ quoted db_file @ '' already exists. Skipping creation.'') w)
      else case connect db_file w of
             (Inl e, w1) \<Rightarrow> (Inl e, w1)
           | (Inr Not_db, w1) \<Rightarrow> (Inl (Exn ''DatabaseError'' ''file is not a database''), w1)
           | (Inr (Db db), w1) \<Rightarrow>
               (case populate db of
                  Inl e \<Rightarrow> (Inl e, w1)
                | Inr db' \<Rightarrow>
                    (let w2 = log (Sql_execute db_file CREATE_EMPLOYEES) w1;
                         w3 = log (Sql_execute db_file CREATE_DEPARTMENTS) w2;
                         w4 = log (Sql_executemany db_file INSERT_DEPARTMENTS departments) w3;
                         w5 = log (Sql_executemany db_file INSERT_EMPLOYEES employees) w4;
                         w6 = store db_file (Db db') w5
                     in (Inr (), print (''Database '' @ quoted db_file @
                                        '' created and populated with sample data.'') w6))))"

section \<open>The synthesizers\<close>

text \<open>
  The completion service is a parameter: \<open>complete prompt\<close> is the content of the first
  choice of the reply to \<open>prompt\<close>, or the exception of a call that fails or
  whose reply has no content.
  \<open>ask_openai\<close> returns that content stripped of surrounding white space.
\<close>

type_synonym completion = "string \<Rightarrow> exn + string"

definition ask_openai :: "completion \<Rightarrow> string \<Rightarrow> world \<Rightarrow> (exn + string) \<times> world" where
  "ask_openai complete prompt w =
     (case complete prompt of
        Inl e \<Rightarrow> (Inl e, log (Completion_call prompt) w)
      | Inr content \<Rightarrow> (Inr (strip content), log (Completion_call prompt) w))"

text \<open>
  The two templates, filled by \<open>str.format\<close>: each field is replaced by its argument
  as it is, and braces inside an argument are not read again.
\<close>

definition TEXT2SQL_PROMPT :: "string \<Rightarrow> string \<Rightarrow> string" where
  "TEXT2SQL_PROMPT database_schema requirement =
     ''\<newline>## Description\<newline>'' @
     ''You are a data engineer responsible for translating management requirements into SQL statements that can be executed in SQLite.\<newline>'' @
     ''You are provided with table schemas in the following format:\<newline>'' @
     database_schema @ ''\<newline>'' @
     ''\<newline>'' @
     ''If the requirement exceeds the provided schema info, return '' @ CHR 0x22 # ''BeyondError'' @ CHR 0x22 # ''.\<newline>'' @
     ''\<newline>'' @
     ''## Examples\<newline>'' @
     ''Requirement: Find the name and age of the oldest employee.\<newline>'' @
     ''SQL: SELECT name, age FROM employees ORDER BY age DESC LIMIT 1;\<newline>'' @
     ''\<newline>'' @
     ''Requirement: Who is my best friend?\<newline>'' @
     ''SQL: BeyondError\<newline>'' @
     ''\<newline>'' @
     ''## Task to solve\<newline>'' @
     ''Requirement: '' @ requirement @ ''\<newline>'' @
     ''SQL:\<newline>''"

definition DATA2CHART_PROMPT :: "string \<Rightarrow> string \<Rightarrow> string" where
  "DATA2CHART_PROMPT requirement result =
     ''\<newline>## Description\<newline>'' @
     ''You are a JS engineer proficient in ECharts. You are provided with a requirement and SQL result.\<newline>'' @
     ''Based on the following rules, generate a valid ECharts option configuration (in JSON format) without extra comments:\<newline>'' @
     ''1. If there'' @ CHR 0x27 # ''s only one data point, use a gauge chart.\<newline>'' @
     ''2. If the requirement involves proportions, use a pie chart.\<newline>'' @
     ''3. If data is one-dimensional with <=6 data points, use a radar chart.\<newline>'' @
     ''4. Otherwise, use line, scatter, or multi-series bar chart as appropriate.\<newline>'' @
     ''All numeric values must have at most two decimal places.\<newline>'' @
     ''Return '' @ CHR 0x22 # ''ChartError'' @ CHR 0x22 # '' if data is empty or improperly formatted.\<newline>'' @
     ''\<newline>'' @
     ''Requirement: '' @ requirement @ ''\<newline>'' @
     ''SQL Result: '' @ result @ ''\<newline>'' @
     ''Result:\<newline>''"

definition gen_sql :: "completion \<Rightarrow> string \<Rightarrow> string \<Rightarrow> world \<Rightarrow> (exn + string) \<times> world" where
  "gen_sql complete database_schema requirement w =
     (let prompt = TEXT2SQL_PROMPT database_schema requirement
      in case ask_openai complete prompt w of
           (Inl e, w1) \<Rightarrow> (Inl e, w1)
         | (Inr sql, w1) \<Rightarrow>
             (Inr sql,
              if sql = ''BeyondError''
              then print (''Error: Requirement exceeds provided schema for ['' @ requirement @ '']'') w1
              else w1))"

text \<open>
  \<open>json.dumps\<close> belongs to the standard library and is a parameter: the text it gives
  for a result, or the exception it raises (a \<open>TypeError\<close> on \<open>bytes\<close>).
\<close>

type_synonym dumps = "tabular \<Rightarrow> exn + string"

definition gen_chart :: "dumps \<Rightarrow> completion \<Rightarrow> string \<Rightarrow> tabular \<Rightarrow> world \<Rightarrow> (exn + string) \<times> world" where
  "gen_chart json_dumps complete requirement result w =
     (case json_dumps result of
        Inl e \<Rightarrow> (Inl e, w)
      | Inr result_str \<Rightarrow> ask_openai complete (DATA2CHART_PROMPT requirement result_str) w)"

section \<open>The main script\<close>

text \<open>
  A run ends with \<open>exit(n)\<close>, by reaching the end of the script (status 0), or with
  the traceback of an exception nobody caught (status 1).
\<close>

datatype outcome = Exit nat | Traceback exn

fun exit_status :: "outcome \<Rightarrow> nat" where
  "exit_status (Exit n) = n"
| "exit_status (Traceback e) = 1"

definition separator :: string where
  "separator = ''\<newline>'' @ replicate 50 (CHR ''='') @ ''\<newline>''"

text \<open>Steps E and F: execute the statement, then generate the chart configuration.\<close>

definition steps_EF :: "engine \<Rightarrow> dumps \<Rightarrow> completion \<Rightarrow> string \<Rightarrow> string \<Rightarrow> world \<Rightarrow> outcome \<times> world" where
  "steps_EF exec json_dumps complete requirement sql w =
     (case fetch_data exec sql DB_FILE w of
        (result, w1) \<Rightarrow>
          if result = [] \<or> length result < 2
          then (Exit 1, print ''ChartError: No or insufficient data returned from SQL.'' w1)
          else (let w2 = print ''Fetched Data:'' w1;
                    w3 = log (Print (Repr result)) w2;
                    w4 = print separator w3
                in case gen_chart json_dumps complete requirement result w4 of
                     (Inl e, w5) \<Rightarrow> (Traceback e, w5)
                   | (Inr chart_config, w5) \<Rightarrow>
                       (Exit 0, print chart_config (print ''ECharts Option Configuration:'' w5))))"

text \<open>Step D, followed by E and F unless the statement is the sentinel.\<close>

definition steps_DEF :: "engine \<Rightarrow> dumps \<Rightarrow> completion \<Rightarrow> string \<Rightarrow> string \<Rightarrow> world \<Rightarrow> outcome \<times> world" where
  "steps_DEF exec json_dumps complete database_schema requirement w =
     (case gen_sql complete database_schema requirement w of
        (Inl e, w1) \<Rightarrow> (Traceback e, w1)
      | (Inr sql, w1) \<Rightarrow>
          (let w2 = print (''\<newline>Generated SQL:\<newline>'' @ sql @ ''\<newline>'') w1
           in if sql = ''BeyondError'' then (Exit 1, w2)
              else steps_EF exec json_dumps complete requirement sql w2))"

text \<open>Steps A and B: create the database if necessary, retrieve and print its schema.\<close>

definition steps_AB :: "pragma_answer \<Rightarrow> world \<Rightarrow> (exn + string) \<times> world" where
  "steps_AB pragma w =
     (case create_database DB_FILE w of
        (Inl e, w1) \<Rightarrow> (Inl e, w1)
      | (Inr _, w1) \<Rightarrow>
          (case get_database_schema pragma DB_FILE w1 of
             (Inl e, w2) \<Rightarrow> (Inl e, w2)
           | (Inr database_schema, w2) \<Rightarrow>
               (Inr database_schema,
                print separator (print database_schema (print ''Database Schema:'' w2)))))"

text \<open>
  The whole script. \<open>stdin\<close> is the line \<open>input\<close> reads, \<open>None\<close> at end of file;
  \<open>pragma\<close> and \<open>exec\<close> stand for SQLite, \<open>json_dumps\<close> and \<open>complete\<close> for the
  serializer and the completion service.
\<close>

definition main ::
  "pragma_answer \<Rightarrow> engine \<Rightarrow> dumps \<Rightarrow> completion \<Rightarrow> string option \<Rightarrow> world \<Rightarrow> outcome \<times> world" where
  "main pragma exec json_dumps complete stdin w =
     (case steps_AB pragma w of
        (Inl e, w1) \<Rightarrow> (Traceback e, w1)
      | (Inr database_schema, w1) \<Rightarrow>
          (let w2 = log (Input_prompt ''Enter your requirement: '') w1
           in case stdin of
                None \<Rightarrow> (Traceback (Exn ''EOFError'' ''EOF when reading a line''), w2)
              | Some line \<Rightarrow>
                  steps_DEF exec json_dumps complete database_schema (strip line) w2))"

section \<open>Notions used to state the properties\<close>

text \<open>
  A machine on which no file exists yet and every path can be opened. On any machine,
  no file has the empty name.
\<close>

definition fresh_world :: world where
  "fresh_world = \<lparr>files = Map.empty, unreachable = (\<lambda>_. False), trace = []\<rparr>"

text \<open>The prompts sent to the completion service so far, and the statements sent to SQLite.\<close>

definition completion_calls :: "world \<Rightarrow> string list" where
  "completion_calls w = [prompt. Completion_call prompt \<leftarrow> trace w]"

definition executed_sql :: "world \<Rightarrow> string list" where
  "executed_sql w = [sql. Sql_execute db_file sql \<leftarrow> trace w]"

text \<open>The world in which step E starts, after \<open>gen_sql\<close> has returned \<open>sql\<close>.\<close>

definition sql_generated :: "string \<Rightarrow> string \<Rightarrow> string \<Rightarrow> world \<Rightarrow> world" where
  "sql_generated database_schema requirement sql w =
     print (''\<newline>Generated SQL:\<newline>'' @ sql @ ''\<newline>'')
       (log (Completion_call (TEXT2SQL_PROMPT database_schema requirement))
         (log (Input_prompt ''Enter your requirement: '') w))"

text \<open>The world in which a run ends when \<open>gen_sql\<close> returns the sentinel.\<close>

definition beyond_schema :: "string \<Rightarrow> string \<Rightarrow> world \<Rightarrow> world" where
  "beyond_schema database_schema requirement w =
     print (''\<newline>Generated SQL:\<newline>BeyondError\<newline>'')
       (print (''Error: Requirement exceeds provided schema for ['' @ requirement @ '']'')
         (log (Completion_call (TEXT2SQL_PROMPT database_schema requirement))
           (log (Input_prompt ''Enter your requirement: '') w)))"

text \<open>The database that \<open>create_database\<close> leaves in a new file.\<close>

definition seeded :: database where
  "seeded = (case populate [] of Inl e \<Rightarrow> [] | Inr db \<Rightarrow> db)"

text \<open>
  The few-shot statement of the prompt, and what SQL asks of its answer on a database
  whose employees all have an integer age: the columns \<open>name\<close> and \<open>age\<close> of one
  employee whose age no other exceeds, whichever of them the tie-break picks, and an
  unchanged database.
\<close>

definition OLDEST_EMPLOYEE :: string where
  "OLDEST_EMPLOYEE = ''SELECT name, age FROM employees ORDER BY age DESC LIMIT 1;''"

definition employee_rows :: "database \<Rightarrow> row list" where
  "employee_rows db = concat [obj_rows obj. obj \<leftarrow> db, obj_name obj = ''employees'']"

definition employee_ages :: "database \<Rightarrow> int list" where
  "employee_ages db = [age. [_, _, VInt age, _] \<leftarrow> employee_rows db]"

definition oldest_employees :: "database \<Rightarrow> row list" where
  "oldest_employees db =
     [[name, VInt age]. [_, name, VInt age, _] \<leftarrow> employee_rows db,
                        list_all (\<lambda>a. a \<le> age) (employee_ages db)]"

definition answers_oldest_employee :: "database \<Rightarrow> exec_result \<Rightarrow> bool" where
  "answers_oldest_employee db r \<longleftrightarrow>
     length (employee_ages db) = length (employee_rows db) \<and>
     (case r of
        Executed (Some columns) [data_row] node' \<Rightarrow>
          columns = [''name'', ''age''] \<and> data_row \<in> set (oldest_employees db) \<and> node' = Db db
      | _ \<Rightarrow> False)"

text \<open>
  The entries of type \<open>table\<close>, and the user tables among them: SQLite reserves the
  names that start with \<open>sqlite_\<close> for its own tables. The columns that
  \<open>table_info\<close> reports are those that are neither generated nor hidden.
\<close>

definition listed_tables :: "database \<Rightarrow> schema_object list" where
  "listed_tables db = filter (\<lambda>obj. obj_type obj = ''table'') db"

definition user_tables :: "database \<Rightarrow> schema_object list" where
  "user_tables db =
     filter (\<lambda>obj. obj_type obj = ''table'' \<and> take 7 (obj_name obj) \<noteq> ''sqlite_'') db"

definition reported_columns :: "schema_object \<Rightarrow> column list" where
  "reported_columns obj = filter (\<lambda>col. \<not> col_hidden col) (obj_columns obj)"

text \<open>
  The reading of the schema text by lines. The block of a table is the line of its name,
  the line \<open>columns:\<close> and one line per reported column, in declared order; the text
  of a schema is the lines of its blocks, with one empty line between two blocks, joined
  by line feeds.
\<close>

definition block_lines :: "schema_object \<Rightarrow> string list" where
  "block_lines obj =
     [''table: '' @ obj_name obj, ''columns:''] @
     map (\<lambda>col. ''col:'' @ col_name col @ '', type:'' @ col_type col) (reported_columns obj)"

fun schema_lines :: "schema_object list \<Rightarrow> string list" where
  "schema_lines [] = []"
| "schema_lines [obj] = block_lines obj"
| "schema_lines (obj # obj' # objs) = block_lines obj @ [[]] @ schema_lines (obj' # objs)"

definition schema_text :: "schema_object list \<Rightarrow> string" where
  "schema_text objs = str_join ''\<newline>'' (schema_lines objs)"

text \<open>
  The stores on which the schema text is read back: the tables and views have distinct
  names, as SQLite ensures; every listed table is an ordinary table with at least one
  reported column; its name holds no single quote; and no name or declared type holds a
  line feed.
\<close>

definition plain_table :: "schema_object \<Rightarrow> bool" where
  "plain_table obj \<longleftrightarrow>
     \<not> obj_virtual obj \<and>
     CHR 0x27 \<notin> set (obj_name obj) \<and> CHR 0x0A \<notin> set (obj_name obj) \<and>
     reported_columns obj \<noteq> [] \<and>
     list_all (\<lambda>col. CHR 0x0A \<notin> set (col_name col) \<and> CHR 0x0A \<notin> set (col_type col))
       (reported_columns obj)"

definition plain_store :: "database \<Rightarrow> bool" where
  "plain_store db \<longleftrightarrow>
     distinct (map obj_name (filter (\<lambda>obj. obj_type obj \<in> {''table'', ''view''}) db)) \<and>
     list_all plain_table (listed_tables db)"

section \<open>Sample parameters\<close>

text \<open>
  Concrete engines, serializers and completion services on which the theorems are
  instantiated. \<open>oldest_first\<close> answers the few-shot statement from the database it is
  given; the others return a fixed outcome, \<open>rejects\<close> for the statements left to
  \<open>pragma\<close>.
\<close>

definition oldest_first :: engine where
  "oldest_first node sql =
     (case node of
        Not_db \<Rightarrow> Raises (Exn ''DatabaseError'' ''file is not a database'')
      | Db db \<Rightarrow>
          if sql = OLDEST_EMPLOYEE
          then Executed (Some [''name'', ''age'']) (take 1 (oldest_employees db)) node
          else Raises (Exn ''OperationalError'' ''statement outside the example''))"

definition no_such_table :: engine where
  "no_such_table node sql = Raises (Exn ''OperationalError'' ''no such table: robots'')"

definition no_rows :: engine where
  "no_rows node sql = Executed (Some [''name'', ''age'']) [] node"

definition row_deleted :: engine where
  "row_deleted node sql = Executed None [] node"

definition rejects :: pragma_answer where
  "rejects db stmt = Inl (Exn ''OperationalError'' ''syntax error'')"

definition json_stub :: dumps where
  "json_stub result = Inr ''[]''"

definition replies_sentinel_line :: completion where
  "replies_sentinel_line prompt = Inr ''BeyondError\<newline>''"

definition replies_lower_case :: completion where
  "replies_lower_case prompt = Inr ''beyonderror''"

definition replies_select :: completion where
  "replies_select prompt = Inr ''SELECT * FROM robots;''"

definition replies_chart_error_line :: completion where
  "replies_chart_error_line prompt = Inr ''ChartError\<newline>''"

definition replies_chart_error :: completion where
  "replies_chart_error prompt = Inr ''ChartError''"

text \<open>The world after steps A and B on a fresh machine, and the schema text printed there.\<close>

definition started :: world where
  "started = snd (steps_AB rejects fresh_world)"

definition seeded_schema :: string where
  "seeded_schema = schema_text (listed_tables seeded)"

section \<open>Basic facts about the world\<close>

lemma log_fields [simp]:
  "files (log e w) = files w" "unreachable (log e w) = unreachable w" "trace (log e w) = trace w @ [e]"
  by (simp_all add: log_def)

lemma print_fields [simp]:
  "files (print s w) = files w" "unreachable (print s w) = unreachable w"
  "trace (print s w) = trace w @ [Print (Text s)]"
  by (simp_all add: print_def)

lemma store_fields [simp]:
  "files (store f node w) = (if in_memory f then files w else (files w)(f \<mapsto> node))"
  "unreachable (store f node w) = unreachable w"
  "trace (store f node w) = trace w"
  by (simp_all add: store_def)

lemma completion_calls_log [simp]:
  "completion_calls (log e w) =
     completion_calls w @ (case e of Completion_call p \<Rightarrow> [p] | _ \<Rightarrow> [])"
  by (simp add: completion_calls_def)

lemma completion_calls_print [simp]: "completion_calls (print s w) = completion_calls w"
  by (simp add: print_def)

lemma completion_calls_store [simp]: "completion_calls (store f node w) = completion_calls w"
  by (simp add: completion_calls_def)

lemma executed_sql_log [simp]:
  "executed_sql (log e w) = executed_sql w @ (case e of Sql_execute f s \<Rightarrow> [s] | _ \<Rightarrow> [])"
  by (simp add: executed_sql_def)

lemma executed_sql_print [simp]: "executed_sql (print s w) = executed_sql w"
  by (simp add: print_def)

lemma DB_FILE_on_disk [simp]: "\<not> in_memory DB_FILE"
  by (simp add: in_memory_def DB_FILE_def)

lemma connect_known:
  "files w f = Some node \<Longrightarrow> \<not> unreachable w f \<Longrightarrow> \<not> in_memory f \<Longrightarrow> connect f w = (Inr node, w)"
  by (simp add: connect_def)

lemma connect_Inr:
  "connect f w = (Inr node, w1) \<Longrightarrow>
     unreachable w1 = unreachable w \<and> trace w1 = trace w \<and>
     (\<not> in_memory f \<longrightarrow> \<not> unreachable w f \<and> files w1 f = Some node)"
  by (auto simp: connect_def split: if_splits option.splits)

lemma connect_log [simp]:
  "connect f (log e w) = (fst (connect f w), log e (snd (connect f w)))"
  by (auto simp: connect_def log_def store_def split: option.splits)

lemma connect_print [simp]:
  "connect f (print s w) = (fst (connect f w), print s (snd (connect f w)))"
  by (simp add: print_def)

lemma connect_completion_calls: "completion_calls (snd (connect f w)) = completion_calls w"
  by (auto simp: connect_def split: option.splits)

lemma fetch_data_completion_calls:
  "completion_calls (snd (fetch_data exec sql f w)) = completion_calls w"
  using connect_completion_calls [of f w]
  by (auto simp: fetch_data_def fetch_failed_def Let_def
      split: prod.splits sum.splits exec_result.splits option.splits)

section \<open>Facts about the script\<close>

lemma schema_loop_store:
  "schema_loop pragma db f tables acc w = (r, w1) \<Longrightarrow>
     files w1 = files w \<and> unreachable w1 = unreachable w"
  by (induction pragma db f tables acc w rule: schema_loop.induct)
     (auto simp: Let_def split: sum.splits)

lemma get_database_schema_store:
  assumes "get_database_schema pragma f w = (Inr s, w1)" and "\<not> in_memory f"
  shows "\<not> unreachable w1 f \<and> (\<exists>db. files w1 f = Some (Db db))"
proof -
  from assms(1) obtain node w2 where c: "connect f w = (Inr node, w2)"
    by (auto simp: get_database_schema_def split: prod.splits sum.splits)
  from assms(1) c obtain db where n: "node = Db db"
    by (cases node) (auto simp: get_database_schema_def Let_def)
  from assms(1) c n obtain info where
    l: "schema_loop pragma db f (sqlite_master_tables db) [] (log (Sql_execute f SELECT_TABLES) w2) =
          (Inr info, w1)"
    by (auto simp: get_database_schema_def Let_def split: prod.splits sum.splits)
  from schema_loop_store [OF l] connect_Inr [OF c] assms(2) n show ?thesis by simp
qed

lemma steps_AB_store:
  assumes "steps_AB pragma w = (Inr s, w1)"
  shows "\<not> unreachable w1 DB_FILE \<and> (\<exists>db. files w1 DB_FILE = Some (Db db))"
proof -
  from assms obtain w2 w3 where g: "get_database_schema pragma DB_FILE w2 = (Inr s, w3)"
    and "w1 = print separator (print s (print ''Database Schema:'' w3))"
    by (auto simp: steps_AB_def split: prod.splits sum.splits)
  with get_database_schema_store [OF g] show ?thesis by simp
qed

lemma main_after_AB:
  "steps_AB pragma w = (Inr database_schema, w1) \<Longrightarrow>
   main pragma exec json_dumps complete (Some line) w =
     steps_DEF exec json_dumps complete database_schema (strip line)
       (log (Input_prompt ''Enter your requirement: '') w1)"
  by (simp add: main_def)

lemma steps_DEF_completed:
  "complete (TEXT2SQL_PROMPT database_schema requirement) = Inr content \<Longrightarrow>
   steps_DEF exec json_dumps complete database_schema requirement
       (log (Input_prompt ''Enter your requirement: '') w1) =
     (if strip content = ''BeyondError''
      then (Exit 1, beyond_schema database_schema requirement w1)
      else steps_EF exec json_dumps complete requirement (strip content)
             (sql_generated database_schema requirement (strip content) w1))"
  by (simp add: steps_DEF_def gen_sql_def ask_openai_def Let_def beyond_schema_def sql_generated_def)

lemma gen_sql_returns:
  "fst (gen_sql complete database_schema requirement w) = Inr sql \<Longrightarrow>
     \<exists>content. complete (TEXT2SQL_PROMPT database_schema requirement) = Inr content \<and>
               strip content = sql"
  by (auto simp: gen_sql_def ask_openai_def Let_def split: sum.splits)

lemma steps_EF_executes:
  assumes "connect DB_FILE w = (Inr node, w')"
  shows "\<exists>evs. trace (snd (steps_EF exec json_dumps complete requirement sql w)) =
                 trace w @ Sql_execute DB_FILE sql # evs"
  using assms connect_Inr [OF assms]
  by (auto simp: steps_EF_def fetch_data_def fetch_failed_def gen_chart_def ask_openai_def Let_def
      split: exec_result.splits option.splits sum.splits)

lemma prompts_differ: "TEXT2SQL_PROMPT s r \<noteq> DATA2CHART_PROMPT r' j"
  by (simp add: TEXT2SQL_PROMPT_def DATA2CHART_PROMPT_def)

lemma dropWhile_keeps:
  "xs = [] \<or> \<not> P (hd xs) \<Longrightarrow> dropWhile P xs = xs"
  by (cases xs) auto

lemma strip_clean:
  assumes "content = [] \<or> \<not> isspace (hd content) \<and> \<not> isspace (last content)"
  shows "strip content = content"
proof -
  have front: "dropWhile isspace content = content"
    using assms by (intro dropWhile_keeps) auto
  have "rev content = [] \<or> \<not> isspace (hd (rev content))"
    using assms by (auto simp: hd_rev)
  then have "dropWhile isspace (rev content) = rev content"
    by (rule dropWhile_keeps)
  with front show ?thesis by (simp add: strip_def)
qed

section \<open>The seeded store\<close>

lemma populate_fresh: "populate [] = Inr seeded"
  by code_simp

lemma create_database_new:
  assumes "files w f = None" and "\<not> unreachable w f" and "\<not> in_memory f"
  shows "fst (create_database f w) = Inr () \<and>
         files (snd (create_database f w)) = (files w)(f \<mapsto> Db seeded) \<and>
         unreachable (snd (create_database f w)) = unreachable w"
  using assms by (simp add: create_database_def connect_def populate_fresh Let_def)

lemma create_database_exists:
  "create_database f w = (Inr (), w1) \<Longrightarrow> \<not> in_memory f \<Longrightarrow> files w1 f \<noteq> None"
  by (auto simp: create_database_def connect_def Let_def
      split: if_splits prod.splits sum.splits option.splits fnode.splits)

lemma create_database_in_memory:
  "create_database f w = (Inr (), w1) \<Longrightarrow> in_memory f \<Longrightarrow>
     fst (create_database f w1) = Inr () \<and> files (snd (create_database f w1)) = files w1"
  by (auto simp: create_database_def connect_def populate_fresh Let_def)

lemma oldest_of_seeded: "oldest_employees seeded = [[VText ''Frank'', VInt 50]]"
  by code_simp

lemma answers_oldest_employeeD:
  "answers_oldest_employee db r \<Longrightarrow>
     \<exists>data_row. r = Executed (Some [''name'', ''age'']) [data_row] (Db db) \<and>
                data_row \<in> set (oldest_employees db)"
  by (auto simp: answers_oldest_employee_def
      split: exec_result.splits option.splits list.splits)

lemma steps_AB_fresh: "steps_AB rejects fresh_world = (Inr seeded_schema, started)"
proof -
  have "fst (steps_AB rejects fresh_world) = Inr seeded_schema"
    by code_simp
  then show ?thesis by (simp add: started_def prod_eq_iff)
qed

lemma started_store: "files started DB_FILE = Some (Db seeded)" "\<not> unreachable started DB_FILE"
  by code_simp+

lemma strip_examples:
  "strip ''BeyondError\<newline>'' = ''BeyondError''"
  "strip ''beyonderror'' = ''beyonderror''"
  "strip ''SELECT * FROM robots;'' = ''SELECT * FROM robots;''"
  "strip ''ChartError\<newline>'' = ''ChartError''"
  "strip ''Who is my best friend?'' = ''Who is my best friend?''"
  by code_simp+

section \<open>The schema text\<close>

lemma find_by_name:
  "distinct (map obj_name (filter (\<lambda>x. obj_type x \<in> {''table'', ''view''}) db)) \<Longrightarrow>
   obj \<in> set db \<Longrightarrow> obj_type obj = ''table'' \<Longrightarrow>
   find (\<lambda>x. obj_name x = obj_name obj \<and> obj_type x \<in> {''table'', ''view''}) db = Some obj"
proof (induction db)
  case Nil
  then show ?case by simp
next
  case (Cons a db)
  show ?case
  proof (cases "a = obj")
    case True
    with Cons.prems show ?thesis by simp
  next
    case False
    with Cons.prems have inside: "obj \<in> set db" by simp
    show ?thesis
    proof (cases "obj_type a \<in> {''table'', ''view''}")
      case True
      with Cons.prems inside have "obj_name a \<noteq> obj_name obj" by force
      with Cons inside True show ?thesis by simp
    next
      case False
      with Cons inside show ?thesis by simp
    qed
  qed
qed

lemma pragma_table_info_listed:
  assumes "plain_store db" and "obj \<in> set (listed_tables db)"
  shows "pragma_table_info pragma db (obj_name obj) = Inr (reported_columns obj)"
proof -
  from assms(2) have "obj \<in> set db" and "obj_type obj = ''table''"
    by (simp_all add: listed_tables_def)
  with assms(1) have "find (\<lambda>x. obj_name x = obj_name obj \<and> obj_type x \<in> {''table'', ''view''}) db = Some obj"
    by (intro find_by_name) (simp_all add: plain_store_def)
  moreover from assms have "plain_table obj"
    by (simp add: plain_store_def list_all_iff)
  ultimately show ?thesis
    by (simp add: pragma_table_info_def plain_table_def reported_columns_def)
qed

lemma schema_loop_blocks:
  assumes "plain_store db" and "set objs \<subseteq> set (listed_tables db)"
  shows "fst (schema_loop pragma db f (map obj_name objs) acc w) =
           Inr (acc @ map (\<lambda>obj. table_block (obj_name obj) (reported_columns obj)) objs)"
  using assms(2)
proof (induction objs arbitrary: acc w)
  case Nil
  then show ?case by simp
next
  case (Cons obj objs)
  then have "pragma_table_info pragma db (obj_name obj) = Inr (reported_columns obj)"
    using assms(1) by (intro pragma_table_info_listed) simp_all
  with Cons show ?case by (simp add: Let_def)
qed

lemma str_join_append:
  "xs \<noteq> [] \<Longrightarrow> ys \<noteq> [] \<Longrightarrow> str_join sep (xs @ ys) = str_join sep xs @ sep @ str_join sep ys"
proof (induction sep xs rule: str_join.induct)
  case (1 sep)
  then show ?case by simp
next
  case (2 sep x)
  then show ?case by (cases ys) simp_all
next
  case (3 sep x y ys)
  then show ?case by simp
qed

lemma table_block_lines:
  assumes "reported_columns obj \<noteq> []"
  shows "table_block (obj_name obj) (reported_columns obj) = str_join ''\<newline>'' (block_lines obj)"
proof -
  have "str_join ''\<newline>'' (block_lines obj) =
          str_join ''\<newline>'' [''table: '' @ obj_name obj, ''columns:''] @ ''\<newline>'' @
          str_join ''\<newline>'' (map col_line (reported_columns obj))"
    unfolding block_lines_def col_line_def [abs_def]
    using assms by (intro str_join_append) simp_all
  then show ?thesis by (simp add: table_block_def)
qed

lemma schema_lines_nonempty: "objs \<noteq> [] \<Longrightarrow> schema_lines objs \<noteq> []"
  by (induction objs rule: schema_lines.induct) (simp_all add: block_lines_def)

lemma blocks_by_lines:
  "\<forall>obj \<in> set objs. reported_columns obj \<noteq> [] \<Longrightarrow>
   str_join ''\<newline>\<newline>'' (map (\<lambda>obj. table_block (obj_name obj) (reported_columns obj)) objs) =
     schema_text objs"
proof (induction objs rule: schema_lines.induct)
  case 1
  then show ?case by (simp add: schema_text_def)
next
  case (2 obj)
  then show ?case by (simp add: schema_text_def table_block_lines)
next
  case (3 obj obj' objs)
  have "str_join ''\<newline>'' (schema_lines (obj # obj' # objs)) =
          str_join ''\<newline>'' (block_lines obj) @ ''\<newline>'' @
          str_join ''\<newline>'' ([[]] @ schema_lines (obj' # objs))"
    unfolding schema_lines.simps
    by (intro str_join_append) (simp_all add: block_lines_def)
  also have "str_join ''\<newline>'' ([[]] @ schema_lines (obj' # objs)) =
          ''\<newline>'' @ str_join ''\<newline>'' (schema_lines (obj' # objs))"
    using schema_lines_nonempty [of "obj' # objs"]
    by (subst str_join_append) simp_all
  finally show ?case using 3 by (simp add: schema_text_def table_block_lines)
qed

text \<open>Cutting at a separator undoes joining pieces that are free of it.\<close>

lemma split_on_nonempty: "split_on sep xs \<noteq> []"
  by (induction xs) (auto split: list.splits)

lemma split_on_free: "sep \<notin> set xs \<Longrightarrow> split_on sep xs = [xs]"
  by (induction xs) auto

lemma split_on_piece:
  "sep \<notin> set xs \<Longrightarrow> split_on sep (xs @ sep # ys) = xs # split_on sep ys"
  by (induction xs) auto

lemma split_on_join:
  "xss \<noteq> [] \<Longrightarrow> \<forall>xs \<in> set xss. sep \<notin> set xs \<Longrightarrow> split_on sep (str_join [sep] xss) = xss"
proof (induction "[sep]" xss rule: str_join.induct)
  case 1
  then show ?case by simp
next
  case (2 x)
  then show ?case by (simp add: split_on_free)
next
  case (3 x y ys)
  then show ?case by (simp add: split_on_piece)
qed

lemma schema_lines_join: "schema_lines objs = str_join [[]] (map block_lines objs)"
  by (induction objs rule: schema_lines.induct) simp_all

lemma block_lines_full: "[] \<notin> set (block_lines obj)"
  by (auto simp: block_lines_def)

lemma block_lines_single:
  "plain_table obj \<Longrightarrow> l \<in> set (block_lines obj) \<Longrightarrow> CHR 0x0A \<notin> set l"
  by (auto simp: block_lines_def plain_table_def list_all_iff)

lemma schema_lines_single:
  "\<forall>obj \<in> set objs. plain_table obj \<Longrightarrow> l \<in> set (schema_lines objs) \<Longrightarrow> CHR 0x0A \<notin> set l"
  by (induction objs rule: schema_lines.induct) (auto dest: block_lines_single)

lemma schema_text_read_back:
  assumes "objs \<noteq> []" and "\<forall>obj \<in> set objs. plain_table obj"
  shows "split_on [] (split_on (CHR 0x0A) (schema_text objs)) = map block_lines objs"
proof -
  have "split_on (CHR 0x0A) (schema_text objs) = schema_lines objs"
    unfolding schema_text_def
    using assms schema_lines_single [of objs]
    by (intro split_on_join schema_lines_nonempty) auto
  moreover have "split_on [] (schema_lines objs) = map block_lines objs"
    unfolding schema_lines_join
    using assms(1) by (intro split_on_join) (simp_all add: block_lines_full)
  ultimately show ?thesis by simp
qed

section \<open>The properties\<close>

text \<open>
  Claim C1. Whatever the statement and the state of the store, when executing the
  statement raises an exception, \<open>fetch_data\<close> catches it, prints the reason and
  returns the empty list. When this happens in a run of the script, the run prints the
  insufficient-data message and exits with status 1.
\<close>

theorem execution_error_is_insufficient_data:
  assumes "connect db_file w = (Inr db, w')" and "exec db sql = Raises e"
  shows "fetch_data exec sql db_file w =
           ([], print (''Error executing SQL: '' @ exn_msg e) (log (Sql_execute db_file sql) w')) \<and>
         (db_file = DB_FILE \<and> steps_AB pragma w0 = (Inr database_schema, w1) \<and>
          complete (TEXT2SQL_PROMPT database_schema (strip line)) = Inr content \<and>
          strip content = sql \<and> sql \<noteq> ''BeyondError'' \<and>
          w = sql_generated database_schema (strip line) sql w1 \<longrightarrow>
          main pragma exec json_dumps complete (Some line) w0 =
            (Exit 1, print ''ChartError: No or insufficient data returned from SQL.''
                       (print (''Error executing SQL: '' @ exn_msg e)
                          (log (Sql_execute db_file sql) w'))))"
proof -
  have f: "fetch_data exec sql db_file w =
           ([], print (''Error executing SQL: '' @ exn_msg e) (log (Sql_execute db_file sql) w'))"
    using assms by (simp add: fetch_data_def fetch_failed_def)
  show ?thesis
  proof (intro conjI impI)
    show "fetch_data exec sql db_file w =
           ([], print (''Error executing SQL: '' @ exn_msg e) (log (Sql_execute db_file sql) w'))"
      by (rule f)
  next
    assume h: "db_file = DB_FILE \<and> steps_AB pragma w0 = (Inr database_schema, w1) \<and>
          complete (TEXT2SQL_PROMPT database_schema (strip line)) = Inr content \<and>
          strip content = sql \<and> sql \<noteq> ''BeyondError'' \<and>
          w = sql_generated database_schema (strip line) sql w1"
    then have "main pragma exec json_dumps complete (Some line) w0 =
          steps_EF exec json_dumps complete (strip line) sql w"
      by (auto simp: main_after_AB steps_DEF_completed)
    with f h show "main pragma exec json_dumps complete (Some line) w0 =
            (Exit 1, print ''ChartError: No or insufficient data returned from SQL.''
                       (print (''Error executing SQL: '' @ exn_msg e)
                          (log (Sql_execute db_file sql) w')))"
      by (simp add: steps_EF_def)
  qed
qed

theorem execution_error_is_insufficient_data_witness:
  "fst (fetch_data no_such_table ''SELECT * FROM robots;'' DB_FILE
          (sql_generated seeded_schema ''Who is my best friend?'' ''SELECT * FROM robots;'' started)) = [] \<and>
   fst (main rejects no_such_table json_stub replies_select (Some ''Who is my best friend?'') fresh_world) = Exit 1"
proof -
  let ?w = "sql_generated seeded_schema ''Who is my best friend?'' ''SELECT * FROM robots;'' started"
  have c: "connect DB_FILE ?w = (Inr (Db seeded), ?w)"
    by (intro connect_known) (simp_all add: sql_generated_def started_store)
  have r: "no_such_table (Db seeded) ''SELECT * FROM robots;'' =
             Raises (Exn ''OperationalError'' ''no such table: robots'')"
    by (simp add: no_such_table_def)
  from execution_error_is_insufficient_data [where exec = no_such_table
        and ?w0.0 = fresh_world and database_schema = seeded_schema and ?w1.0 = started
        and complete = replies_select and line = "''Who is my best friend?''"
        and content = "''SELECT * FROM robots;''" and json_dumps = json_stub, OF c r]
  show ?thesis
    by (simp add: steps_AB_fresh strip_examples replies_select_def)
qed

text \<open>
  Claim C2. When \<open>gen_sql\<close> returns the sentinel \<open>BeyondError\<close>, the run exits with
  status 1 right after printing the generated text: no statement is sent to SQLite after
  the schema was read, the only prompt sent to the completion service is the SQL prompt
  (which is never a chart prompt), and the files are as they were.
\<close>

theorem sentinel_aborts_before_execution:
  assumes "steps_AB pragma w = (Inr database_schema, w1)"
    and "fst (gen_sql complete database_schema (strip line)
                (log (Input_prompt ''Enter your requirement: '') w1)) = Inr ''BeyondError''"
  shows "main pragma exec json_dumps complete (Some line) w =
           (Exit 1, beyond_schema database_schema (strip line) w1) \<and>
         exit_status (fst (main pragma exec json_dumps complete (Some line) w)) \<noteq> 0 \<and>
         executed_sql (snd (main pragma exec json_dumps complete (Some line) w)) = executed_sql w1 \<and>
         completion_calls (snd (main pragma exec json_dumps complete (Some line) w)) =
           completion_calls w1 @ [TEXT2SQL_PROMPT database_schema (strip line)] \<and>
         (\<forall>r j. TEXT2SQL_PROMPT database_schema (strip line) \<noteq> DATA2CHART_PROMPT r j) \<and>
         files (snd (main pragma exec json_dumps complete (Some line) w)) = files w1"
proof -
  from gen_sql_returns [OF assms(2)] obtain content where
    "complete (TEXT2SQL_PROMPT database_schema (strip line)) = Inr content"
    and "strip content = ''BeyondError''"
    by blast
  with assms(1) show ?thesis
    by (simp add: main_after_AB steps_DEF_completed beyond_schema_def prompts_differ)
qed

theorem sentinel_aborts_before_execution_witness:
  "main rejects oldest_first json_stub replies_sentinel_line (Some ''Who is my best friend?'') fresh_world =
     (Exit 1, beyond_schema seeded_schema ''Who is my best friend?'' started) \<and>
   executed_sql (beyond_schema seeded_schema ''Who is my best friend?'' started) = executed_sql started"
proof -
  have c: "fst (gen_sql replies_sentinel_line seeded_schema (strip ''Who is my best friend?'')
                  (log (Input_prompt ''Enter your requirement: '') started)) = Inr ''BeyondError''"
    by (simp add: gen_sql_def ask_openai_def replies_sentinel_line_def strip_examples)
  from sentinel_aborts_before_execution [where complete = replies_sentinel_line
        and exec = oldest_first and json_dumps = json_stub, OF steps_AB_fresh c]
  show ?thesis by (auto simp: strip_examples)
qed

text \<open>
  Claim C3, as amended. For every store with at least one table, whose tables are
  ordinary tables with at least one column that \<open>table_info\<close> reports, with table
  names free of single quotes and names and declared types free of line feeds (the names
  of tables and views being distinct, as SQLite ensures), \<open>get_database_schema\<close>
  lists every \<open>sqlite_master\<close> entry of type \<open>table\<close>: all user tables, and the
  internal tables of SQLite as well. Cut at line feeds and then at empty lines, its text
  is exactly one block per listed table, in order: the line \<open>table: <name>\<close>, the
  line \<open>columns:\<close>, then one line \<open>col:<name>, type:<type>\<close> per column that is
  neither generated nor hidden, each once and in declared order.
\<close>

theorem schema_lists_every_table_entry:
  assumes "connect db_file w = (Inr (Db db), w1)"
    and "plain_store db" and "listed_tables db \<noteq> []"
  shows "(\<exists>text. fst (get_database_schema pragma db_file w) = Inr text \<and>
                 text = schema_text (listed_tables db) \<and>
                 split_on [] (split_on (CHR 0x0A) text) = map block_lines (listed_tables db)) \<and>
         set (user_tables db) \<subseteq> set (listed_tables db)"
proof (intro conjI exI)
  let ?w' = "log (Sql_execute db_file SELECT_TABLES) w1"
  let ?blocks = "map (\<lambda>obj. table_block (obj_name obj) (reported_columns obj)) (listed_tables db)"
  have plain: "\<forall>obj \<in> set (listed_tables db). plain_table obj"
    using assms(2) by (simp add: plain_store_def list_all_iff)
  have names: "sqlite_master_tables db = map obj_name (listed_tables db)"
    by (simp add: sqlite_master_tables_def listed_tables_def)
  have "fst (schema_loop pragma db db_file (map obj_name (listed_tables db)) [] ?w') =
          Inr ([] @ ?blocks)"
    using assms(2) by (intro schema_loop_blocks) simp_all
  then obtain w3 where
    "schema_loop pragma db db_file (map obj_name (listed_tables db)) [] ?w' = (Inr ?blocks, w3)"
    by (cases "schema_loop pragma db db_file (map obj_name (listed_tables db)) [] ?w'") simp
  then have "fst (get_database_schema pragma db_file w) = Inr (str_join ''\<newline>\<newline>'' ?blocks)"
    using assms(1) by (simp add: get_database_schema_def names Let_def)
  also have "str_join ''\<newline>\<newline>'' ?blocks = schema_text (listed_tables db)"
    using plain by (intro blocks_by_lines) (simp add: plain_table_def)
  finally show "fst (get_database_schema pragma db_file w) = Inr (schema_text (listed_tables db))" .
  show "schema_text (listed_tables db) = schema_text (listed_tables db)" ..
  show "split_on [] (split_on (CHR 0x0A) (schema_text (listed_tables db))) =
          map block_lines (listed_tables db)"
    using assms(3) plain by (rule schema_text_read_back)
  show "set (user_tables db) \<subseteq> set (listed_tables db)"
    by (auto simp: user_tables_def listed_tables_def)
qed

theorem schema_lists_every_table_entry_witness:
  "fst (get_database_schema rejects DB_FILE (snd (create_database DB_FILE fresh_world))) =
     Inr (''table: employees\<newline>columns:\<newline>col:id, type:INTEGER\<newline>col:name, type:TEXT\<newline>'' @
          ''col:age, type:INTEGER\<newline>col:department_id, type:INTEGER\<newline>\<newline>'' @
          ''table: sqlite_sequence\<newline>columns:\<newline>col:name, type:\<newline>col:seq, type:\<newline>\<newline>'' @
          ''table: departments\<newline>columns:\<newline>col:id, type:INTEGER\<newline>col:name, type:TEXT'') \<and>
   split_on [] (split_on (CHR 0x0A) (schema_text (listed_tables seeded))) =
     [[''table: employees'', ''columns:'', ''col:id, type:INTEGER'', ''col:name, type:TEXT'',
       ''col:age, type:INTEGER'', ''col:department_id, type:INTEGER''],
      [''table: sqlite_sequence'', ''columns:'', ''col:name, type:'', ''col:seq, type:''],
      [''table: departments'', ''columns:'', ''col:id, type:INTEGER'', ''col:name, type:TEXT'']]"
proof -
  let ?w1 = "snd (create_database DB_FILE fresh_world)"
  have a: "files ?w1 DB_FILE = Some (Db seeded)" and b: "\<not> unreachable ?w1 DB_FILE"
    using create_database_new [of fresh_world DB_FILE] by (simp_all add: fresh_world_def)
  then have c: "connect DB_FILE ?w1 = (Inr (Db seeded), ?w1)"
    by (intro connect_known DB_FILE_on_disk)
  have d: "plain_store seeded"
    by code_simp
  have e: "listed_tables seeded \<noteq> []"
    by code_simp
  have f: "schema_text (listed_tables seeded) =
          ''table: employees\<newline>columns:\<newline>col:id, type:INTEGER\<newline>col:name, type:TEXT\<newline>'' @
          ''col:age, type:INTEGER\<newline>col:department_id, type:INTEGER\<newline>\<newline>'' @
          ''table: sqlite_sequence\<newline>columns:\<newline>col:name, type:\<newline>col:seq, type:\<newline>\<newline>'' @
          ''table: departments\<newline>columns:\<newline>col:id, type:INTEGER\<newline>col:name, type:TEXT''"
    by code_simp
  have g: "map block_lines (listed_tables seeded) =
     [[''table: employees'', ''columns:'', ''col:id, type:INTEGER'', ''col:name, type:TEXT'',
       ''col:age, type:INTEGER'', ''col:department_id, type:INTEGER''],
      [''table: sqlite_sequence'', ''columns:'', ''col:name, type:'', ''col:seq, type:''],
      [''table: departments'', ''columns:'', ''col:id, type:INTEGER'', ''col:name, type:TEXT'']]"
    by code_simp
  from schema_lists_every_table_entry [where pragma = rejects, OF c d e] f g
  show ?thesis by auto
qed

text \<open>
  Claim C3 as stated asks for the user tables only. On the store that
  \<open>create_database\<close> has just seeded, the text also has a block for
  \<open>sqlite_sequence\<close>, the internal table that the \<open>AUTOINCREMENT\<close> keys bring.
\<close>

theorem internal_table_listed:
  "fst (get_database_schema rejects DB_FILE (snd (create_database DB_FILE fresh_world))) \<noteq>
     Inr (schema_text (user_tables seeded)) \<and>
   map obj_name (listed_tables seeded) = [''employees'', ''sqlite_sequence'', ''departments''] \<and>
   map obj_name (user_tables seeded) = [''employees'', ''departments'']"
  by code_simp

text \<open>
  Claim C4. When the statement executes and has result columns, \<open>fetch_data\<close> returns
  the row of column names followed by the fetched rows in fetch order: the header is at
  index 0 and data row \<open>i\<close> is at index \<open>i + 1\<close>.
\<close>

theorem fetch_data_header_and_rows:
  assumes "connect db_file w = (Inr db, w1)" and "exec db sql = Executed (Some columns) data db'"
  shows "fst (fetch_data exec sql db_file w) = [map VText columns] @ data \<and>
         fst (fetch_data exec sql db_file w) ! 0 = map VText columns \<and>
         length (fst (fetch_data exec sql db_file w)) = Suc (length data) \<and>
         (\<forall>i < length data. fst (fetch_data exec sql db_file w) ! Suc i = data ! i)"
  using assms by (simp add: fetch_data_def Let_def)

theorem fetch_data_header_and_rows_witness:
  "fst (fetch_data oldest_first OLDEST_EMPLOYEE DB_FILE started) =
     [[VText ''name'', VText ''age''], [VText ''Frank'', VInt 50]]"
proof -
  have c: "connect DB_FILE started = (Inr (Db seeded), started)"
    by (intro connect_known started_store DB_FILE_on_disk)
  have r: "oldest_first (Db seeded) OLDEST_EMPLOYEE =
             Executed (Some [''name'', ''age'']) [[VText ''Frank'', VInt 50]] (Db seeded)"
    by (simp add: oldest_first_def oldest_of_seeded)
  from fetch_data_header_and_rows [where exec = oldest_first, OF c r] show ?thesis by simp
qed

text \<open>
  Claim C5. When the fetched result is empty or is a header row without data rows, the
  run prints the insufficient-data message and exits with status 1; the only prompt sent
  to the completion service is the SQL prompt, so the chart synthesizer is not called.
\<close>

theorem insufficient_data_aborts:
  assumes "steps_AB pragma w = (Inr database_schema, w1)"
    and "complete (TEXT2SQL_PROMPT database_schema (strip line)) = Inr content"
    and "strip content \<noteq> ''BeyondError''"
    and "fetch_data exec (strip content) DB_FILE
           (sql_generated database_schema (strip line) (strip content) w1) = (result, w2)"
    and "result = [] \<or> (\<exists>header. result = [header])"
  shows "main pragma exec json_dumps complete (Some line) w =
           (Exit 1, print ''ChartError: No or insufficient data returned from SQL.'' w2) \<and>
         exit_status (fst (main pragma exec json_dumps complete (Some line) w)) \<noteq> 0 \<and>
         completion_calls (snd (main pragma exec json_dumps complete (Some line) w)) =
           completion_calls w1 @ [TEXT2SQL_PROMPT database_schema (strip line)]"
proof -
  have run: "main pragma exec json_dumps complete (Some line) w =
           (Exit 1, print ''ChartError: No or insufficient data returned from SQL.'' w2)"
    using assms by (auto simp: main_after_AB steps_DEF_completed steps_EF_def)
  have "completion_calls w2 =
          completion_calls (sql_generated database_schema (strip line) (strip content) w1)"
    using fetch_data_completion_calls [of exec "strip content" DB_FILE
        "sql_generated database_schema (strip line) (strip content) w1"] assms(4)
    by simp
  then show ?thesis using run by (simp add: sql_generated_def)
qed

theorem insufficient_data_aborts_witness:
  "fst (main rejects no_rows json_stub replies_select (Some ''Who is my best friend?'') fresh_world) = Exit 1 \<and>
   completion_calls (snd (main rejects no_rows json_stub replies_select (Some ''Who is my best friend?'') fresh_world)) =
     completion_calls started @ [TEXT2SQL_PROMPT seeded_schema ''Who is my best friend?'']"
proof -
  let ?w = "sql_generated seeded_schema ''Who is my best friend?'' ''SELECT * FROM robots;'' started"
  have c: "replies_select (TEXT2SQL_PROMPT seeded_schema (strip ''Who is my best friend?'')) =
             Inr ''SELECT * FROM robots;''"
    by (simp add: replies_select_def)
  have n: "strip ''SELECT * FROM robots;'' \<noteq> ''BeyondError''"
    by (simp add: strip_examples)
  have conn: "connect DB_FILE ?w = (Inr (Db seeded), ?w)"
    by (intro connect_known) (simp_all add: sql_generated_def started_store)
  have f: "fetch_data no_rows (strip ''SELECT * FROM robots;'') DB_FILE
             (sql_generated seeded_schema (strip ''Who is my best friend?'')
                (strip ''SELECT * FROM robots;'') started) =
           ([[VText ''name'', VText ''age'']],
            store DB_FILE (Db seeded) (log (Sql_execute DB_FILE ''SELECT * FROM robots;'') ?w))"
    by (simp add: strip_examples fetch_data_def conn no_rows_def)
  have h: "[[VText ''name'', VText ''age'']] = [] \<or>
           (\<exists>header. [[VText ''name'', VText ''age'']] = [header])"
    by simp
  from insufficient_data_aborts [where complete = replies_select and exec = no_rows
        and json_dumps = json_stub, OF steps_AB_fresh c n f h]
  show ?thesis by (auto simp: strip_examples)
qed

text \<open>
  Claim C6, as amended. The comparison with the sentinel is exact and case-sensitive,
  on the reply stripped of its surrounding white space: the run ends for the
  beyond-schema reason, without executing anything, if and only if the stripped reply is
  \<open>BeyondError\<close>; every other stripped reply is passed on to step E and is the first
  statement sent to SQLite there.
\<close>

theorem beyond_schema_iff_stripped_sentinel:
  assumes "steps_AB pragma w = (Inr database_schema, w1)"
    and "complete (TEXT2SQL_PROMPT database_schema (strip line)) = Inr content"
  shows "(strip content = ''BeyondError'' \<longrightarrow>
            main pragma exec json_dumps complete (Some line) w =
              (Exit 1, beyond_schema database_schema (strip line) w1) \<and>
            executed_sql (beyond_schema database_schema (strip line) w1) = executed_sql w1) \<and>
         (strip content \<noteq> ''BeyondError'' \<longrightarrow>
            main pragma exec json_dumps complete (Some line) w =
              steps_EF exec json_dumps complete (strip line) (strip content)
                (sql_generated database_schema (strip line) (strip content) w1) \<and>
            (\<exists>evs. trace (snd (main pragma exec json_dumps complete (Some line) w)) =
                     trace (sql_generated database_schema (strip line) (strip content) w1) @
                     Sql_execute DB_FILE (strip content) # evs))"
proof (intro conjI impI)
  assume "strip content = ''BeyondError''"
  with assms show "main pragma exec json_dumps complete (Some line) w =
              (Exit 1, beyond_schema database_schema (strip line) w1)"
    by (simp add: main_after_AB steps_DEF_completed)
  show "executed_sql (beyond_schema database_schema (strip line) w1) = executed_sql w1"
    by (simp add: beyond_schema_def)
next
  assume other: "strip content \<noteq> ''BeyondError''"
  with assms show run: "main pragma exec json_dumps complete (Some line) w =
              steps_EF exec json_dumps complete (strip line) (strip content)
                (sql_generated database_schema (strip line) (strip content) w1)"
    by (simp add: main_after_AB steps_DEF_completed)
  from steps_AB_store [OF assms(1)] obtain db where
    "\<not> unreachable w1 DB_FILE" and "files w1 DB_FILE = Some (Db db)" by blast
  then have "connect DB_FILE (sql_generated database_schema (strip line) (strip content) w1) =
               (Inr (Db db), sql_generated database_schema (strip line) (strip content) w1)"
    by (intro connect_known) (simp_all add: sql_generated_def)
  from steps_EF_executes [OF this] run
  show "\<exists>evs. trace (snd (main pragma exec json_dumps complete (Some line) w)) =
                     trace (sql_generated database_schema (strip line) (strip content) w1) @
                     Sql_execute DB_FILE (strip content) # evs"
    by simp
qed

theorem beyond_schema_iff_stripped_sentinel_witness:
  "main rejects oldest_first json_stub replies_sentinel_line (Some ''Who is my best friend?'') fresh_world =
     (Exit 1, beyond_schema seeded_schema ''Who is my best friend?'' started) \<and>
   main rejects oldest_first json_stub replies_lower_case (Some ''Who is my best friend?'') fresh_world =
     steps_EF oldest_first json_stub replies_lower_case ''Who is my best friend?'' ''beyonderror''
       (sql_generated seeded_schema ''Who is my best friend?'' ''beyonderror'' started)"
proof -
  have c1: "replies_sentinel_line (TEXT2SQL_PROMPT seeded_schema (strip ''Who is my best friend?'')) =
             Inr ''BeyondError\<newline>''"
    by (simp add: replies_sentinel_line_def)
  have c2: "replies_lower_case (TEXT2SQL_PROMPT seeded_schema (strip ''Who is my best friend?'')) =
             Inr ''beyonderror''"
    by (simp add: replies_lower_case_def)
  from beyond_schema_iff_stripped_sentinel [where complete = replies_sentinel_line
        and exec = oldest_first and json_dumps = json_stub, OF steps_AB_fresh c1]
    beyond_schema_iff_stripped_sentinel [where complete = replies_lower_case
        and exec = oldest_first and json_dumps = json_stub, OF steps_AB_fresh c2]
  show ?thesis by (simp add: strip_examples)
qed

text \<open>
  Claim C6 as stated compares the reply itself. A reply that is the sentinel followed
  by a line feed differs from the sentinel, and the run still ends for the beyond-schema
  reason with nothing executed.
\<close>

theorem sentinel_line_aborts:
  "''BeyondError\<newline>'' \<noteq> ''BeyondError'' \<and>
   replies_sentinel_line (TEXT2SQL_PROMPT seeded_schema ''Who is my best friend?'') =
     Inr ''BeyondError\<newline>'' \<and>
   main rejects oldest_first json_stub replies_sentinel_line (Some ''Who is my best friend?'') fresh_world =
     (Exit 1, beyond_schema seeded_schema ''Who is my best friend?'' started) \<and>
   executed_sql (beyond_schema seeded_schema ''Who is my best friend?'' started) = executed_sql started"
proof -
  have c: "replies_sentinel_line (TEXT2SQL_PROMPT seeded_schema (strip ''Who is my best friend?'')) =
             Inr ''BeyondError\<newline>''"
    by (simp add: replies_sentinel_line_def)
  from main_after_AB [OF steps_AB_fresh]
    steps_DEF_completed [where complete = replies_sentinel_line, OF c]
  show ?thesis
    by (simp add: strip_examples replies_sentinel_line_def beyond_schema_def)
qed

text \<open>
  Claim C7. Where the database file already exists, \<open>create_database\<close> only prints
  that it skips the creation and leaves every file, hence every table and row, as it
  is; and a call that follows a successful call is such a call.
\<close>

theorem create_database_twice:
  "(files w db_file \<noteq> None \<longrightarrow>
      create_database db_file w =
        (Inr (), print (''Database '' @ quoted db_file @ '' already exists. Skipping creation.'') w) \<and>
      files (snd (create_database db_file w)) = files w) \<and>
   (create_database db_file w = (Inr (), w1) \<longrightarrow>
      fst (create_database db_file w1) = Inr () \<and>
      files (snd (create_database db_file w1)) = files w1)"
proof (intro conjI impI)
  assume "files w db_file \<noteq> None"
  then show "create_database db_file w =
        (Inr (), print (''Database '' @ quoted db_file @ '' already exists. Skipping creation.'') w)"
    and "files (snd (create_database db_file w)) = files w"
    by (simp_all add: create_database_def)
next
  assume first: "create_database db_file w = (Inr (), w1)"
  have "fst (create_database db_file w1) = Inr () \<and>
        files (snd (create_database db_file w1)) = files w1"
  proof (cases "in_memory db_file")
    case True
    with first show ?thesis by (rule create_database_in_memory)
  next
    case False
    with first have "files w1 db_file \<noteq> None" by (rule create_database_exists)
    then show ?thesis by (simp add: create_database_def)
  qed
  then show "fst (create_database db_file w1) = Inr ()"
    and "files (snd (create_database db_file w1)) = files w1"
    by simp_all
qed

theorem create_database_twice_witness:
  "fst (create_database DB_FILE (snd (create_database DB_FILE fresh_world))) = Inr () \<and>
   files (snd (create_database DB_FILE (snd (create_database DB_FILE fresh_world)))) =
     files (snd (create_database DB_FILE fresh_world)) \<and>
   files (snd (create_database DB_FILE fresh_world)) DB_FILE = Some (Db seeded)"
proof -
  let ?w1 = "snd (create_database DB_FILE fresh_world)"
  have new: "fst (create_database DB_FILE fresh_world) = Inr ()"
    and there: "files ?w1 DB_FILE = Some (Db seeded)"
    using create_database_new [of fresh_world DB_FILE] by (simp_all add: fresh_world_def)
  from new have first: "create_database DB_FILE fresh_world = (Inr (), ?w1)"
    by (simp add: prod_eq_iff)
  from there have exists: "files ?w1 DB_FILE \<noteq> None" by simp
  from create_database_twice [of ?w1 DB_FILE] create_database_twice [of fresh_world DB_FILE ?w1]
    first exists there
  show ?thesis by simp
qed

text \<open>
  Claim C8. On the store seeded by \<open>create_database\<close> (four departments, six
  employees), for every engine that answers the few-shot statement as SQL asks,
  \<open>fetch_data\<close> returns the header \<open>name, age\<close> and exactly one data row, which is
  one of \<open>Bob, 50\<close> and \<open>Frank, 50\<close>, 50 being the largest age. The row is in fact
  always that of Frank: the seed gives Bob the age 45, so no tie arises.
\<close>

theorem oldest_employee_on_seeded_store:
  assumes "files w DB_FILE = None" and "\<not> unreachable w DB_FILE"
    and "answers_oldest_employee seeded (exec (Db seeded) OLDEST_EMPLOYEE)"
  shows "files (snd (create_database DB_FILE w)) DB_FILE = Some (Db seeded) \<and>
         concat [obj_rows obj. obj \<leftarrow> seeded, obj_name obj = ''departments''] =
           [[VInt 1, VText ''Human Resources''], [VInt 2, VText ''Engineering''],
            [VInt 3, VText ''Sales''], [VInt 4, VText ''Marketing'']] \<and>
         length (employee_rows seeded) = 6 \<and>
         fst (fetch_data exec OLDEST_EMPLOYEE DB_FILE (snd (create_database DB_FILE w))) =
           [[VText ''name'', VText ''age''], [VText ''Frank'', VInt 50]] \<and>
         (\<exists>data_row.
            fst (fetch_data exec OLDEST_EMPLOYEE DB_FILE (snd (create_database DB_FILE w))) =
              [[VText ''name'', VText ''age''], data_row] \<and>
            (data_row = [VText ''Bob'', VInt 50] \<or> data_row = [VText ''Frank'', VInt 50])) \<and>
         list_all (\<lambda>age. age \<le> 50) (employee_ages seeded) \<and> 50 \<in> set (employee_ages seeded)"
proof -
  let ?w1 = "snd (create_database DB_FILE w)"
  have store: "files ?w1 DB_FILE = Some (Db seeded)" and reach: "\<not> unreachable ?w1 DB_FILE"
    using create_database_new [OF assms(1,2) DB_FILE_on_disk] assms(2) by simp_all
  have conn: "connect DB_FILE ?w1 = (Inr (Db seeded), ?w1)"
    using store reach by (intro connect_known DB_FILE_on_disk)
  from answers_oldest_employeeD [OF assms(3)]
  have answer: "exec (Db seeded) OLDEST_EMPLOYEE =
                  Executed (Some [''name'', ''age'']) [[VText ''Frank'', VInt 50]] (Db seeded)"
    by (auto simp: oldest_of_seeded)
  have result: "fst (fetch_data exec OLDEST_EMPLOYEE DB_FILE ?w1) =
           [[VText ''name'', VText ''age''], [VText ''Frank'', VInt 50]]"
    by (simp add: fetch_data_def conn answer)
  have depts: "concat [obj_rows obj. obj \<leftarrow> seeded, obj_name obj = ''departments''] =
           [[VInt 1, VText ''Human Resources''], [VInt 2, VText ''Engineering''],
            [VInt 3, VText ''Sales''], [VInt 4, VText ''Marketing'']]"
    by code_simp
  have six: "length (employee_rows seeded) = 6"
    by code_simp
  have ages: "list_all (\<lambda>age. age \<le> 50) (employee_ages seeded)" "50 \<in> set (employee_ages seeded)"
    by code_simp+
  from store depts six result ages show ?thesis by simp
qed

theorem oldest_employee_on_seeded_store_witness:
  "fst (fetch_data oldest_first OLDEST_EMPLOYEE DB_FILE (snd (create_database DB_FILE fresh_world))) =
     [[VText ''name'', VText ''age''], [VText ''Frank'', VInt 50]]"
proof -
  have a: "files fresh_world DB_FILE = None" and b: "\<not> unreachable fresh_world DB_FILE"
    by (simp_all add: fresh_world_def)
  have c: "answers_oldest_employee seeded (oldest_first (Db seeded) OLDEST_EMPLOYEE)"
    by code_simp
  from oldest_employee_on_seeded_store [where exec = oldest_first, OF a b c] show ?thesis by simp
qed

text \<open>
  Claim C9, as amended. When the result can be serialized and the completion service
  replies, \<open>gen_chart\<close> puts the serialized result into the prompt after
  \<open>SQL Result:\<close> and returns the reply without any validation, stripped of its
  surrounding white space; a reply without surrounding white space, such as the sentinel
  \<open>ChartError\<close> or a malformed document, is returned unchanged.
\<close>

theorem gen_chart_returns_stripped_reply:
  assumes "json_dumps result = Inr result_str"
    and "complete (DATA2CHART_PROMPT requirement result_str) = Inr content"
  shows "gen_chart json_dumps complete requirement result w =
           (Inr (strip content), log (Completion_call (DATA2CHART_PROMPT requirement result_str)) w) \<and>
         (\<exists>before after. DATA2CHART_PROMPT requirement result_str =
                            before @ ''SQL Result: '' @ result_str @ after) \<and>
         (content = [] \<or> \<not> isspace (hd content) \<and> \<not> isspace (last content) \<longrightarrow>
            strip content = content)"
proof (intro conjI)
  show "gen_chart json_dumps complete requirement result w =
           (Inr (strip content), log (Completion_call (DATA2CHART_PROMPT requirement result_str)) w)"
    using assms by (simp add: gen_chart_def ask_openai_def)
  show "\<exists>before after. DATA2CHART_PROMPT requirement result_str =
                            before @ ''SQL Result: '' @ result_str @ after"
  proof (intro exI)
    show "DATA2CHART_PROMPT requirement result_str =
            (''\<newline>## Description\<newline>'' @
             ''You are a JS engineer proficient in ECharts. You are provided with a requirement and SQL result.\<newline>'' @
             ''Based on the following rules, generate a valid ECharts option configuration (in JSON format) without extra comments:\<newline>'' @
             ''1. If there'' @ CHR 0x27 # ''s only one data point, use a gauge chart.\<newline>'' @
             ''2. If the requirement involves proportions, use a pie chart.\<newline>'' @
             ''3. If data is one-dimensional with <=6 data points, use a radar chart.\<newline>'' @
             ''4. Otherwise, use line, scatter, or multi-series bar chart as appropriate.\<newline>'' @
             ''All numeric values must have at most two decimal places.\<newline>'' @
             ''Return '' @ CHR 0x22 # ''ChartError'' @ CHR 0x22 # '' if data is empty or improperly formatted.\<newline>'' @
             ''\<newline>'' @
             ''Requirement: '' @ requirement @ ''\<newline>'') @
            ''SQL Result: '' @ result_str @ ''\<newline>Result:\<newline>''"
      by (simp add: DATA2CHART_PROMPT_def)
  qed
  show "content = [] \<or> \<not> isspace (hd content) \<and> \<not> isspace (last content) \<longrightarrow>
            strip content = content"
    by (rule impI) (rule strip_clean)
qed

theorem gen_chart_returns_stripped_reply_witness:
  "fst (gen_chart json_stub replies_chart_error_line ''Who is my best friend?'' [] fresh_world) =
     Inr ''ChartError'' \<and>
   fst (gen_chart json_stub replies_chart_error ''Who is my best friend?'' [] fresh_world) =
     Inr ''ChartError''"
proof -
  have a: "json_stub [] = Inr ''[]''"
    by (simp add: json_stub_def)
  have b: "replies_chart_error_line (DATA2CHART_PROMPT ''Who is my best friend?'' ''[]'') =
             Inr ''ChartError\<newline>''"
    by (simp add: replies_chart_error_line_def)
  have b': "replies_chart_error (DATA2CHART_PROMPT ''Who is my best friend?'' ''[]'') =
             Inr ''ChartError''"
    by (simp add: replies_chart_error_def)
  have c: "''ChartError'' = [] \<or> \<not> isspace (hd ''ChartError'') \<and> \<not> isspace (last ''ChartError'')"
    by code_simp
  from gen_chart_returns_stripped_reply [where json_dumps = json_stub
        and complete = replies_chart_error_line and w = fresh_world, OF a b]
  have first: "fst (gen_chart json_stub replies_chart_error_line ''Who is my best friend?'' []
                      fresh_world) = Inr ''ChartError''"
    by (simp add: strip_examples)
  from gen_chart_returns_stripped_reply [where json_dumps = json_stub
        and complete = replies_chart_error and w = fresh_world, OF a b'] c
  have "fst (gen_chart json_stub replies_chart_error ''Who is my best friend?'' []
               fresh_world) = Inr ''ChartError''"
    by simp
  with first show ?thesis by simp
qed

text \<open>
  Claim C9 as stated has every reply returned unchanged. A reply that ends with a line
  feed comes back without it.
\<close>

theorem reply_line_is_changed:
  "replies_chart_error_line (DATA2CHART_PROMPT ''Who is my best friend?'' ''[]'') =
     Inr ''ChartError\<newline>'' \<and>
   fst (gen_chart json_stub replies_chart_error_line ''Who is my best friend?'' [] fresh_world) =
     Inr ''ChartError'' \<and>
   ''ChartError'' \<noteq> ''ChartError\<newline>''"
  by (simp add: gen_chart_def json_stub_def ask_openai_def replies_chart_error_line_def strip_examples)

text \<open>
  Claim C10. When the statement executes but has no result columns, \<open>fetch_data\<close>
  returns the empty list, the value it returns when the execution fails.
\<close>

theorem fetch_data_no_result_columns:
  assumes "connect db_file w = (Inr db, w1)" and "exec db sql = Executed None data db'"
  shows "fst (fetch_data exec sql db_file w) = [] \<and>
         (\<forall>exec' e. exec' db sql = Raises e \<longrightarrow>
            fst (fetch_data exec' sql db_file w) = fst (fetch_data exec sql db_file w))"
  using assms by (simp add: fetch_data_def fetch_failed_def Let_def)

theorem fetch_data_no_result_columns_witness:
  "fst (fetch_data row_deleted ''DELETE FROM employees;'' DB_FILE started) = [] \<and>
   fst (fetch_data no_such_table ''DELETE FROM employees;'' DB_FILE started) =
     fst (fetch_data row_deleted ''DELETE FROM employees;'' DB_FILE started)"
proof -
  have c: "connect DB_FILE started = (Inr (Db seeded), started)"
    by (intro connect_known started_store DB_FILE_on_disk)
  have r: "row_deleted (Db seeded) ''DELETE FROM employees;'' = Executed None [] (Db seeded)"
    by (simp add: row_deleted_def)
  from fetch_data_no_result_columns [where exec = row_deleted, OF c r] show ?thesis
    by (simp add: no_such_table_def)
qed

end
